theory Spec2Isabelle
  imports Main
begin

section \<open>JavaScript values used by the chat component\<close>

text \<open>
  A JavaScript \<open>Error\<close> object, reduced to the one property the component reads:
  \<open>error.message\<close>.
\<close>

datatype js_error = Error (message: string)

text \<open>
  A string is falsy exactly when it is empty; \<open>undefined\<close> (an absent route parameter) is
  falsy too. The route parameter \<open>params?.id as string | undefined\<close> is a
  \<open>string option\<close>.
\<close>

definition truthy :: "string \<Rightarrow> bool" where
  "truthy s = (s \<noteq> [])"

definition truthy_opt :: "string option \<Rightarrow> bool" where
  "truthy_opt v = (case v of None \<Rightarrow> False | Some s \<Rightarrow> truthy s)"

text \<open>
  \<open>String.prototype.trim\<close>: white space and line terminators are removed from both ends.
  Characters are 8-bit here, so of the characters ECMAScript counts as white space the
  model has TAB, LF, VT, FF, CR, SPACE and NO-BREAK SPACE (code 160).
\<close>

definition is_js_space :: "char \<Rightarrow> bool" where
  "is_js_space c = (of_char c \<in> {9, 10, 11, 12, 13, 32, 160 :: nat})"

definition trim :: "string \<Rightarrow> string" where
  "trim s = rev (dropWhile is_js_space (rev (dropWhile is_js_space s)))"

section \<open>Effects of the component's handlers\<close>

text \<open>
  The handlers of \<open>chat.tsx\<close> return nothing of interest; what they do is call the console,
  the toast library, the router, the hook's \<open>handleSubmit\<close>, \<open>fetch\<close> and the \<open>cleanup\<close>
  function of \<open>initializeMCPClients\<close>. Each handler is modelled as the list of the calls
  it makes, in program order.
\<close>

datatype console_arg = Str string | Err js_error | Json js_error

record toast_options =
  position :: string
  richColors :: bool

datatype 'm effect =
    ConsoleError "console_arg list"
  | ToastError string "toast_options option"
  | PostMessages 'm string
  | Cleanup
  | PreventDefault
  | HandleSubmit string
  | RouterPush string

definition cleanup_calls :: "'m effect list \<Rightarrow> nat" where
  "cleanup_calls effs = length (filter (\<lambda>e. e = Cleanup) effs)"

fun is_toast :: "'m effect \<Rightarrow> bool" where
  "is_toast (ToastError _ _) = True"
| "is_toast _ = False"

definition toasts :: "'m effect list \<Rightarrow> 'm effect list" where
  "toasts effs = filter is_toast effs"


section \<open>The chat hook: conversation id, error notification, loading flag\<close>

text \<open>
  \<open>chatId || generatedChatId\<close>, the value given to \<open>useChat\<close> both as \<open>id\<close> and as
  \<open>body.chatId\<close> (lines 201 and 207).
\<close>

definition useChat_id :: "string option \<Rightarrow> string \<Rightarrow> string" where
  "useChat_id chatId generatedChatId =
     (case chatId of
        None \<Rightarrow> generatedChatId
      | Some c \<Rightarrow> if truthy c then c else generatedChatId)"

text \<open>The \<open>onError\<close> callback given to \<open>useChat\<close> (lines 217-224).\<close>

definition useChat_onError :: "js_error \<Rightarrow> 'm effect list" where
  "useChat_onError error =
     [ToastError
        (if length (message error) > 0 then message error
         else ''An error occured, please try again later.'')
        (Some \<lparr>position = ''top-center'', richColors = True\<rparr>)]"

text \<open>
  The hook's \<open>status\<close> is one of the strings \<open>submitted\<close>, \<open>streaming\<close>, \<open>ready\<close> and
  \<open>error\<close>; \<open>ready\<close> is the idle state.
\<close>

datatype chat_status = Submitted | Streaming | Ready | ErrorStatus

definition isLoading :: "chat_status \<Rightarrow> bool \<Rightarrow> bool" where
  "isLoading status isLoadingChat =
     (status = Streaming \<or> status = Submitted \<or> isLoadingChat)"

section \<open>The submit handler\<close>

text \<open>
  \<open>handleFormSubmit\<close> (lines 228-247). The hook's \<open>handleSubmit\<close> sends the request under
  the id the hook was given in this render, \<open>chatId || generatedChatId\<close>; the effect
  \<open>HandleSubmit\<close> carries that id.
\<close>

definition handleFormSubmit :: "string option \<Rightarrow> string \<Rightarrow> string \<Rightarrow> 'm effect list" where
  "handleFormSubmit chatId generatedChatId input =
     PreventDefault #
     (if \<not> truthy_opt chatId \<and> truthy generatedChatId \<and> truthy (trim input)
      then (let effectiveChatId = generatedChatId
            in [HandleSubmit (useChat_id chatId generatedChatId),
                RouterPush (''/chat/'' @ effectiveChatId)])
      else [HandleSubmit (useChat_id chatId generatedChatId)])"

section \<open>History fetch\<close>

text \<open>
  \<open>ChatData\<close> (lines 24-29). The stored message type comes from the database schema and
  is left as the type parameter \<open>'d\<close>.
\<close>

record 'd ChatData =
  cd_id :: string
  cd_messages :: "'d list"
  cd_createdAt :: string
  cd_updatedAt :: string

text \<open>
  What \<open>queryFn\<close> reads of the \<open>Response\<close> that \<open>fetch\<close> resolves with: \<open>status\<close>, and
  the result of \<open>response.json()\<close>, which rejects when the body is not JSON.
  \<open>response.ok\<close> is, by the Fetch standard, true exactly for a status from 200 to 299.
\<close>

record 'd response =
  status :: nat
  json :: "js_error + 'd ChatData"

definition ok :: "'d response \<Rightarrow> bool" where
  "ok r = (200 \<le> status r \<and> status r \<le> 299)"

text \<open>A call of \<open>fetch\<close> either rejects (the network failed) or resolves with a response.\<close>

datatype 'r fetch_outcome = Rejects js_error | Resolves 'r

text \<open>
  \<open>queryFn\<close> (lines 66-90). \<open>Inl\<close> is a thrown error, \<open>Inr None\<close> the value \<open>null\<close>. The
  fetch is issued only when both ids are truthy; \<open>fetched\<close> is what it then yields. The two
  calls of \<open>new Date().toISOString()\<close> read the clock twice: \<open>now1\<close> and \<open>now2\<close>.
\<close>

definition queryFn ::
  "string option \<Rightarrow> string \<Rightarrow> 'd response fetch_outcome \<Rightarrow> string \<Rightarrow> string
     \<Rightarrow> js_error + 'd ChatData option" where
  "queryFn chatId userId fetched now1 now2 =
     (case chatId of
        None \<Rightarrow> Inr None
      | Some cid \<Rightarrow>
          if \<not> truthy cid \<or> \<not> truthy userId then Inr None
          else
            (case fetched of
               Rejects e \<Rightarrow> Inl e
             | Resolves r \<Rightarrow>
                 if \<not> ok r then
                   (if status r = 404
                    then Inr (Some \<lparr>cd_id = cid, cd_messages = [],
                                    cd_createdAt = now1, cd_updatedAt = now2\<rparr>)
                    else Inl (Error ''Failed to load chat''))
                 else
                   (case json r of
                      Inl e \<Rightarrow> Inl e
                    | Inr d \<Rightarrow> Inr (Some d))))"

text \<open>
  The query hook (lines 60-95). The query is enabled when both ids are truthy
  (\<open>enabled: !!chatId && !!userId\<close>); it is then in flight until it settles. With
  \<open>retry: 1\<close> a run of \<open>queryFn\<close> that throws is repeated once, and the query settles with
  the result of the last run.
\<close>

datatype 'd query_state =
    Disabled
  | Fetching
  | Settled "js_error + 'd ChatData option"

definition enabled :: "string option \<Rightarrow> string \<Rightarrow> bool" where
  "enabled chatId userId = (truthy_opt chatId \<and> truthy userId)"

definition useQuery_settled ::
  "string option \<Rightarrow> string \<Rightarrow> 'd response fetch_outcome \<Rightarrow> 'd response fetch_outcome
     \<Rightarrow> string \<Rightarrow> string \<Rightarrow> 'd query_state" where
  "useQuery_settled chatId userId first retry now1 now2 =
     (if \<not> enabled chatId userId then Disabled
      else
        (case queryFn chatId userId first now1 now2 of
           Inr d \<Rightarrow> Settled (Inr d)
         | Inl _ \<Rightarrow> Settled (queryFn chatId userId retry now1 now2)))"

text \<open>
  The three values the component takes from the hook: \<open>data: chatData\<close> (\<open>undefined\<close> and
  \<open>null\<close> are both \<open>None\<close>: the component only tests \<open>!chatData\<close>),
  \<open>isLoading: isLoadingChat\<close> and \<open>error\<close>.
\<close>

definition chatData :: "'d query_state \<Rightarrow> 'd ChatData option" where
  "chatData q = (case q of Settled (Inr d) \<Rightarrow> d | _ \<Rightarrow> None)"

definition isLoadingChat :: "'d query_state \<Rightarrow> bool" where
  "isLoadingChat q = (case q of Fetching \<Rightarrow> True | _ \<Rightarrow> False)"

definition query_error :: "'d query_state \<Rightarrow> js_error option" where
  "query_error q = (case q of Settled (Inl e) \<Rightarrow> Some e | _ \<Rightarrow> None)"

text \<open>The effect that handles query errors (lines 98-103).\<close>

definition handle_query_error :: "js_error option \<Rightarrow> 'm effect list" where
  "handle_query_error error =
     (case error of
        None \<Rightarrow> []
      | Some e \<Rightarrow>
          [ConsoleError [Str ''Error loading chat history:'', Err e],
           ToastError ''Failed to load chat history'' None])"

text \<open>
  \<open>initialMessages\<close> (lines 106-122). \<open>convertToUIMessages\<close> belongs to the chat store and
  is a parameter; of the messages it returns the component copies four fields.
\<close>

record 'p ui_message =
  ui_id :: string
  ui_role :: string
  ui_content :: string
  ui_parts :: 'p

record 'p Message =
  msg_id :: string
  msg_role :: string
  msg_content :: string
  msg_parts :: 'p

definition initialMessages ::
  "('d list \<Rightarrow> ('p, 'z) ui_message_scheme list) \<Rightarrow> 'd ChatData option \<Rightarrow> 'p Message list" where
  "initialMessages convertToUIMessages data =
     (case data of
        None \<Rightarrow> []
      | Some d \<Rightarrow>
          if length (cd_messages d) = 0 then []
          else
            (let uiMessages = convertToUIMessages (cd_messages d)
             in map (\<lambda>msg. \<lparr>msg_id = ui_id msg, msg_role = ui_role msg,
                             msg_content = ui_content msg, msg_parts = ui_parts msg\<rparr>)
                  uiMessages))"

section \<open>The request: tool connections, stream callbacks, persistence\<close>

text \<open>
  The two callbacks \<open>customFetch\<close> gives to \<open>streamText\<close> (lines 173-193). \<open>onError\<close>
  prints the error. \<open>onFinish\<close> posts the finished messages to \<open>/api/chat/messages\<close> inside
  a \<open>try\<close>; \<open>posted\<close> is what that \<open>fetch\<close> yields, and its response is not read. The
  \<open>catch\<close> clause prints a rejection; \<open>cleanup()\<close> follows the \<open>try\<close> statement.
\<close>

definition streamText_onError :: "js_error \<Rightarrow> 'm effect list" where
  "streamText_onError error = [ConsoleError [Json error]]"

definition streamText_onFinish :: "string \<Rightarrow> 'm \<Rightarrow> 'r fetch_outcome \<Rightarrow> 'm effect list" where
  "streamText_onFinish chatId messages posted =
     PostMessages messages chatId #
     (case posted of
        Rejects error \<Rightarrow> [ConsoleError [Str ''Failed to save messages:'', Err error]]
      | Resolves _ \<Rightarrow> []) @
     [Cleanup]"

text \<open>
  \<open>streamText\<close> calls the callbacks while the stream is consumed; a request's stream is the
  list of the calls it makes. The library calls \<open>onFinish\<close> when the stream finishes, and
  \<open>onError\<close> for an error of the stream; a stream whose first model call fails makes the
  one call of \<open>onError\<close>.
\<close>

datatype ('m, 'r) stream_callback =
    OnError js_error
  | OnFinish 'm "'r fetch_outcome"

fun run_callbacks :: "string \<Rightarrow> ('m, 'r) stream_callback list \<Rightarrow> 'm effect list" where
  "run_callbacks chatId [] = []"
| "run_callbacks chatId (OnError e # cbs) = streamText_onError e @ run_callbacks chatId cbs"
| "run_callbacks chatId (OnFinish m posted # cbs) =
     streamText_onFinish chatId m posted @ run_callbacks chatId cbs"

fun is_finish :: "('m, 'r) stream_callback \<Rightarrow> bool" where
  "is_finish (OnFinish _ _) = True"
| "is_finish _ = False"

text \<open>
  \<open>customFetch\<close> (lines 129-196). \<open>parsed\<close> is the result of \<open>JSON.parse\<close> on the request
  body, of which the model keeps \<open>m.mcpServers\<close> and \<open>m.chatId\<close>; \<open>initializeMCPClients\<close>
  is a parameter that rejects or resolves with the tools (its \<open>cleanup\<close> is the effect
  \<open>Cleanup\<close>). A throw of either makes the function reject before any stream exists.
  Otherwise the result is the list of everything done for the request.
\<close>

record 's request_body =
  mcpServers :: 's
  chatId :: string

definition customFetch ::
  "js_error + 's request_body \<Rightarrow> ('s \<Rightarrow> js_error + 't) \<Rightarrow> ('m, 'r) stream_callback list
     \<Rightarrow> js_error + 'm effect list" where
  "customFetch parsed initializeMCPClients stream =
     (case parsed of
        Inl e \<Rightarrow> Inl e
      | Inr m \<Rightarrow>
          (case initializeMCPClients (mcpServers m) of
             Inl e \<Rightarrow> Inl e
           | Inr tools \<Rightarrow> Inr (run_callbacks (chatId m) stream)))"

section \<open>The messages route\<close>

text \<open>
  \<open>POST\<close> of \<open>route.ts\<close>. \<open>req_json\<close> is the result of \<open>await req.json()\<close> and of taking
  \<open>messages\<close> and \<open>chatId\<close> from it; \<open>convertToDBMessages\<close> and \<open>saveMessages\<close> belong to the
  chat store and are parameters that throw or return. The handler returns what it printed
  to the console and its JSON response; \<open>NextResponse.json\<close> without a status answers 200.
\<close>

datatype json_body = SuccessBody bool | ErrorBody string

record json_response =
  res_status :: nat
  res_body :: json_body

definition save_failed :: "js_error \<Rightarrow> console_arg list list \<times> json_response" where
  "save_failed error =
     ([[Str ''Error saving messages:'', Err error]],
      \<lparr>res_status = 500, res_body = ErrorBody ''Failed to save messages''\<rparr>)"

definition POST ::
  "js_error + 'm \<times> 'c \<Rightarrow> ('m \<Rightarrow> 'c \<Rightarrow> js_error + 'db) \<Rightarrow> ('db \<Rightarrow> js_error + unit)
     \<Rightarrow> console_arg list list \<times> json_response" where
  "POST req_json convertToDBMessages saveMessages =
     (case req_json of
        Inl error \<Rightarrow> save_failed error
      | Inr (messages, chat) \<Rightarrow>
          (case convertToDBMessages messages chat of
             Inl error \<Rightarrow> save_failed error
           | Inr dbMessages \<Rightarrow>
               (case saveMessages dbMessages of
                  Inl error \<Rightarrow> save_failed error
                | Inr _ \<Rightarrow> ([], \<lparr>res_status = 200, res_body = SuccessBody True\<rparr>))))"

section \<open>The tool-use loop\<close>



datatype ('c, 'r) turn =
    UserTurn string
  | AssistantText string
  | AssistantToolCalls "'c list"
  | ToolResult 'r

datatype loop_outcome = Done | Truncated | Errored js_error | Cancelled

record ('c, 'r) loop_result =
  outcome :: loop_outcome
  steps :: nat
  history :: "('c, 'r) turn list"



section \<open>Properties of the hook and the submit handler\<close>

lemma all_dropWhile: "(\<forall>x \<in> set (dropWhile P s). P x) \<longleftrightarrow> (\<forall>c \<in> set s. P c)"
  by (induction s) auto

lemma trim_empty_iff: "trim s = [] \<longleftrightarrow> (\<forall>c \<in> set s. is_js_space c)"
  by (simp add: trim_def all_dropWhile)

lemma useChat_id_unrouted: "\<not> truthy_opt cid \<Longrightarrow> useChat_id cid gen = gen"
  by (auto simp: useChat_id_def truthy_opt_def split: option.splits)

text \<open>
  C7. Every error event of the stream shows one notification. Its text is the error's
  message when the message is not empty, and the fallback text
  \<open>An error occured, please try again later.\<close> when it is empty.
\<close>

theorem onError_toast_text:
  "(message e \<noteq> [] \<longrightarrow>
      useChat_onError e =
        [ToastError (message e) (Some \<lparr>position = ''top-center'', richColors = True\<rparr>)])
   \<and> (message e = [] \<longrightarrow>
      useChat_onError e =
        [ToastError ''An error occured, please try again later.''
           (Some \<lparr>position = ''top-center'', richColors = True\<rparr>)])"
  by (simp add: useChat_onError_def)

theorem onError_toast_text_witness:
  "useChat_onError (Error ''Rate limit reached'') =
     [ToastError ''Rate limit reached''
        (Some \<lparr>position = ''top-center'', richColors = True\<rparr>) :: unit effect]
   \<and> useChat_onError (Error []) =
     [ToastError ''An error occured, please try again later.''
        (Some \<lparr>position = ''top-center'', richColors = True\<rparr>) :: unit effect]"
  using onError_toast_text [of "Error ''Rate limit reached''"] onError_toast_text [of "Error []"]
  by simp

text \<open>
  C8. \<open>isLoading\<close> is true exactly when the chat status is \<open>submitted\<close> or \<open>streaming\<close>, or
  the history fetch is still in flight; in every other state it is false.
\<close>

theorem isLoading_iff:
  "isLoading st (isLoadingChat q) \<longleftrightarrow> (st = Submitted \<or> st = Streaming \<or> q = Fetching)"
  by (cases q) (auto simp: isLoading_def isLoadingChat_def)




text \<open>
  C10. On a submit in an unrouted conversation whose input is empty or only white space,
  the handler still calls \<open>handleSubmit\<close>, under the generated id, and pushes no route.
\<close>

theorem blank_submit_stays:
  assumes "\<not> truthy_opt cid" and "\<forall>c \<in> set input. is_js_space c"
  shows "handleFormSubmit cid gen input = [PreventDefault, HandleSubmit gen]"
  using assms trim_empty_iff [of input]
  by (simp add: handleFormSubmit_def useChat_id_unrouted truthy_def)

theorem blank_submit_stays_witness:
  "handleFormSubmit None ''V1StGXR8'' [CHR '' '', CHR 0x09] =
     [PreventDefault, HandleSubmit ''V1StGXR8'' :: unit effect]
   \<and> handleFormSubmit (Some []) ''V1StGXR8'' [] =
     [PreventDefault, HandleSubmit ''V1StGXR8'' :: unit effect]"
  using blank_submit_stays [of None "[CHR '' '', CHR 0x09]" "''V1StGXR8''"]
    blank_submit_stays [of "Some []" "[]" "''V1StGXR8''"]
  by (simp add: truthy_opt_def truthy_def is_js_space_def)

section \<open>Properties of the history fetch\<close>

lemma empty_history_no_error:
  assumes "cid \<noteq> []" and "userId \<noteq> []"
    and "ok r" and "json r = Inr d" and "cd_messages d = []"
  shows "query_error (useQuery_settled (Some cid) userId (Resolves r) retry now1 now2) = None
         \<and> initialMessages conv
              (chatData (useQuery_settled (Some cid) userId (Resolves r) retry now1 now2)) = []"
  using assms
  by (simp add: useQuery_settled_def enabled_def truthy_opt_def truthy_def queryFn_def
      query_error_def chatData_def initialMessages_def)

text \<open>
  C3. A history fetch answered with status 404 makes \<open>queryFn\<close> return the empty-history
  payload \<open>{ id: chatId, messages: [], createdAt, updatedAt }\<close> and throw nothing: the query
  settles without an error, the error effect prints and shows nothing, and the initial
  messages are empty. (An id that exists with no messages is \<open>empty_history_no_error\<close>.)
\<close>

theorem not_found_is_empty_history:
  assumes "cid \<noteq> []" and "userId \<noteq> []" and "status r = 404"
  shows "queryFn (Some cid) userId (Resolves r) now1 now2 =
           Inr (Some \<lparr>cd_id = cid, cd_messages = [], cd_createdAt = now1, cd_updatedAt = now2\<rparr>)
         \<and> query_error (useQuery_settled (Some cid) userId (Resolves r) retry now1 now2) = None
         \<and> handle_query_error
              (query_error (useQuery_settled (Some cid) userId (Resolves r) retry now1 now2)) = []
         \<and> initialMessages conv
              (chatData (useQuery_settled (Some cid) userId (Resolves r) retry now1 now2)) = []"
proof -
  have q: "queryFn (Some cid) userId (Resolves r) now1 now2 =
      Inr (Some \<lparr>cd_id = cid, cd_messages = [], cd_createdAt = now1, cd_updatedAt = now2\<rparr>)"
    using assms by (simp add: queryFn_def truthy_def ok_def)
  have s: "useQuery_settled (Some cid) userId (Resolves r) retry now1 now2 =
      Settled (Inr (Some \<lparr>cd_id = cid, cd_messages = [], cd_createdAt = now1, cd_updatedAt = now2\<rparr>))"
    using assms(1,2) by (simp add: useQuery_settled_def enabled_def truthy_opt_def truthy_def q)
  show ?thesis
    by (simp add: q s query_error_def handle_query_error_def chatData_def initialMessages_def)
qed

theorem not_found_is_empty_history_witness:
  "queryFn (Some ''V1StGXR8'') ''user-1''
       (Resolves \<lparr>status = 404, json = Inl (Error ''Unexpected token'') :: js_error + unit ChatData\<rparr>)
       ''2025-05-01T10:00:00.000Z'' ''2025-05-01T10:00:00.001Z'' =
     Inr (Some \<lparr>cd_id = ''V1StGXR8'', cd_messages = [],
                 cd_createdAt = ''2025-05-01T10:00:00.000Z'',
                 cd_updatedAt = ''2025-05-01T10:00:00.001Z''\<rparr>)
   \<and> query_error (useQuery_settled (Some ''V1StGXR8'') ''user-1''
       (Resolves \<lparr>status = 404, json = Inl (Error ''Unexpected token'') :: js_error + unit ChatData\<rparr>)
       (Rejects (Error ''Failed to fetch''))
       ''2025-05-01T10:00:00.000Z'' ''2025-05-01T10:00:00.001Z'') = None
   \<and> (handle_query_error (query_error (useQuery_settled (Some ''V1StGXR8'') ''user-1''
       (Resolves \<lparr>status = 404, json = Inl (Error ''Unexpected token'') :: js_error + unit ChatData\<rparr>)
       (Rejects (Error ''Failed to fetch''))
       ''2025-05-01T10:00:00.000Z'' ''2025-05-01T10:00:00.001Z'')) :: unit effect list) = []
   \<and> initialMessages (\<lambda>ms. [] :: unit ui_message list)
       (chatData (useQuery_settled (Some ''V1StGXR8'') ''user-1''
       (Resolves \<lparr>status = 404, json = Inl (Error ''Unexpected token'') :: js_error + unit ChatData\<rparr>)
       (Rejects (Error ''Failed to fetch''))
       ''2025-05-01T10:00:00.000Z'' ''2025-05-01T10:00:00.001Z'')) = []"
  by (rule not_found_is_empty_history) simp_all



section \<open>Properties of the request and of persistence\<close>

lemma run_callbacks_cleanup_calls:
  "cleanup_calls (run_callbacks cid cbs) = length (filter is_finish cbs)"
proof (induction cbs)
  case Nil
  then show ?case by (simp add: cleanup_calls_def)
next
  case (Cons cb cbs)
  then show ?case
    by (cases cb; cases "case cb of OnFinish _ p \<Rightarrow> p")
       (auto simp: cleanup_calls_def streamText_onError_def streamText_onFinish_def
             split: fetch_outcome.splits)
qed

text \<open>
  C1. The claim asks for exactly one call of \<open>cleanup\<close> on every exit path of a request.
  Only \<open>onFinish\<close> calls it: a request whose stream fails, so that \<open>onError\<close> is the only
  callback, prints the error and ends with no call of \<open>cleanup\<close>.
\<close>

theorem failed_stream_never_cleaned_up:
  "customFetch (Inr \<lparr>mcpServers = [''search''], chatId = ''V1StGXR8''\<rparr>) (\<lambda>servers. Inr servers)
       [OnError (Error ''model call failed'') :: (string, unit) stream_callback]
     = Inr [ConsoleError [Json (Error ''model call failed'')]]
   \<and> cleanup_calls [ConsoleError [Json (Error ''model call failed'')] :: string effect] = 0"
  by (simp add: customFetch_def streamText_onError_def cleanup_calls_def)

text \<open>
  C5. When the persistence write fails, the failure is printed and reported and goes no
  further. On the client a rejected POST is caught and printed; whatever the POST yields,
  \<open>onFinish\<close> shows no notification and ends with its one call of \<open>cleanup\<close>; a response
  of the route, also a failing one, is not read. On the server a failure of parsing,
  conversion or saving is printed and answered with status 500.
\<close>

theorem persistence_failure_contained:
  "streamText_onFinish cid m (Rejects e :: json_response fetch_outcome) =
     [PostMessages m cid, ConsoleError [Str ''Failed to save messages:'', Err e], Cleanup]
   \<and> streamText_onFinish cid m (Resolves (snd (POST req conv save))) = [PostMessages m cid, Cleanup]
   \<and> toasts (streamText_onFinish cid m (posted :: json_response fetch_outcome)) = []
   \<and> cleanup_calls (streamText_onFinish cid m posted) = 1
   \<and> last (streamText_onFinish cid m posted) = Cleanup
   \<and> ((req = Inl e'
        \<or> (\<exists>ms c. req = Inr (ms, c) \<and> conv ms c = Inl e')
        \<or> (\<exists>ms c db. req = Inr (ms, c) \<and> conv ms c = Inr db \<and> save db = Inl e'))
       \<longrightarrow> POST req conv save =
             ([[Str ''Error saving messages:'', Err e']],
              \<lparr>res_status = 500, res_body = ErrorBody ''Failed to save messages''\<rparr>))"
  by (cases posted)
     (auto simp: streamText_onFinish_def toasts_def cleanup_calls_def POST_def save_failed_def)

theorem persistence_failure_contained_witness:
  "POST (Inr (''turns'', ''V1StGXR8'')) (\<lambda>ms c. Inr (c @ ms)) (\<lambda>db. Inl (Error ''database is down'')) =
     ([[Str ''Error saving messages:'', Err (Error ''database is down'')]],
      \<lparr>res_status = 500, res_body = ErrorBody ''Failed to save messages''\<rparr>)
   \<and> streamText_onFinish ''V1StGXR8'' ''turns''
        (Resolves (snd (POST (Inr (''turns'', ''V1StGXR8'')) (\<lambda>ms c. Inr (c @ ms))
                          (\<lambda>db. Inl (Error ''database is down''))))) =
     [PostMessages ''turns'' ''V1StGXR8'', Cleanup]"
  using persistence_failure_contained
      [of "''V1StGXR8''" "''turns''" "Error ''Failed to fetch''"
          "Inr (''turns'', ''V1StGXR8'')" "\<lambda>ms c. Inr (c @ ms)" "\<lambda>db. Inl (Error ''database is down'')"
          "Rejects (Error ''Failed to fetch'')" "Error ''database is down''"]
  by (simp add: streamText_onFinish_def)

text \<open>
  C9. The handler of the messages route answers every request with a JSON response: the
  body \<open>{ success: true }\<close> with status 200 exactly when parsing, conversion and saving all
  succeed, and the body \<open>{ error: 'Failed to save messages' }\<close> with status 500 otherwise.
\<close>

theorem POST_total:
  "(snd (POST req conv save) = \<lparr>res_status = 200, res_body = SuccessBody True\<rparr>
      \<longleftrightarrow> (\<exists>ms c db. req = Inr (ms, c) \<and> conv ms c = Inr db \<and> save db = Inr ()))
   \<and> (snd (POST req conv save) = \<lparr>res_status = 500, res_body = ErrorBody ''Failed to save messages''\<rparr>
      \<longleftrightarrow> \<not> (\<exists>ms c db. req = Inr (ms, c) \<and> conv ms c = Inr db \<and> save db = Inr ()))"
  by (auto simp: POST_def save_failed_def split: sum.splits prod.splits)

section \<open>Properties of the tool-use loop\<close>





end
